theory Spec2Isabelle
  imports Main "HOL-Library.Sublist"
begin

section \<open>Python values, exceptions and the operators the handlers use\<close>

text \<open>
  The event handed to \<open>lambda_handler\<close> is untyped Python data. A value is \<open>None\<close>, a
  bool, an int, a str, a list, a dict with str keys (an association list in insertion
  order, read with \<open>map_of\<close>; the keys of a real dict are distinct) or a \<open>Decimal\<close>, the
  type in which the store's resource API returns numbers (only its integer value is
  kept: the handlers never compute with it, \<open>json.dumps\<close> rejects it). Python floats
  are not represented. A str is a list of code points, a character of the theory
  standing for the code point of the same number, so the strs represented are those of
  code points below 256.
\<close>

datatype pyval =
    PNone
  | PBool bool
  | PInt int
  | PStr string
  | PList "pyval list"
  | PDict "(string \<times> pyval) list"
  | PDecimal int

text \<open>
  Exceptions are values. \<open>KeyError\<close> carries the text of \<open>str(e)\<close> (the \<open>repr\<close> of the
  missing key); \<open>ClientError\<close> is botocore's, with the text of \<open>str(e)\<close> and the value
  of its attribute \<open>e.response\<close>;
  \<open>OtherException\<close> is any other subclass of \<open>Exception\<close> a collaborator raises
  (a connection error, a parameter validation error), with its text. The messages of
  the interpreter's own \<open>TypeError\<close>, \<open>AttributeError\<close>, \<open>ValueError\<close> and
  \<open>IndexError\<close> depend on the interpreter's version and are not recorded.
\<close>

datatype exn =
    KeyError string
  | TypeError
  | AttributeError
  | ValueError
  | IndexError
  | ClientError string pyval
  | OtherException string

fun is_ClientError :: "exn \<Rightarrow> bool" where
  "is_ClientError (ClientError m r) = True"
| "is_ClientError e = False"

text \<open>\<open>repr\<close> of a str key without quote characters, as \<open>KeyError\<close> prints it.\<close>

definition repr_key :: "string \<Rightarrow> string" where
  "repr_key k = [CHR 0x27] @ k @ [CHR 0x27]"

text \<open>\<open>bool(v)\<close>: the truth value Python's \<open>and\<close> tests.\<close>

fun truthy :: "pyval \<Rightarrow> bool" where
  "truthy PNone = False"
| "truthy (PBool b) = b"
| "truthy (PInt n) = (n \<noteq> 0)"
| "truthy (PStr s) = (s \<noteq> [])"
| "truthy (PList xs) = (xs \<noteq> [])"
| "truthy (PDict kvs) = (kvs \<noteq> [])"
| "truthy (PDecimal n) = (n \<noteq> 0)"

text \<open>
  \<open>'k' in v\<close>: key membership on a dict, substring on a str, element equality on a
  list, \<open>TypeError\<close> on a value that is not a container.
\<close>

fun py_in :: "string \<Rightarrow> pyval \<Rightarrow> exn + bool" where
  "py_in k (PDict kvs) = Inr (map_of kvs k \<noteq> None)"
| "py_in k (PStr s) = Inr (sublist k s)"
| "py_in k (PList xs) = Inr (List.member xs (PStr k))"
| "py_in k v = Inl TypeError"

text \<open>\<open>v['k']\<close> with a str subscript: only a dict accepts it.\<close>

fun subscript :: "pyval \<Rightarrow> string \<Rightarrow> exn + pyval" where
  "subscript (PDict kvs) k =
     (case map_of kvs k of None \<Rightarrow> Inl (KeyError (repr_key k)) | Some v \<Rightarrow> Inr v)"
| "subscript v k = Inl TypeError"

text \<open>\<open>v[0]\<close>: the first element of a list or str; a dict has no key \<open>0\<close>.\<close>

fun subscript0 :: "pyval \<Rightarrow> exn + pyval" where
  "subscript0 (PList []) = Inl IndexError"
| "subscript0 (PList (x # xs)) = Inr x"
| "subscript0 (PStr []) = Inl IndexError"
| "subscript0 (PStr (c # cs)) = Inr (PStr [c])"
| "subscript0 (PDict kvs) = Inl (KeyError ''0'')"
| "subscript0 v = Inl TypeError"

text \<open>\<open>v.get('k', d)\<close>: a method of dict only.\<close>

fun py_get :: "pyval \<Rightarrow> string \<Rightarrow> pyval \<Rightarrow> exn + pyval" where
  "py_get (PDict kvs) k d = Inr (case map_of kvs k of None \<Rightarrow> d | Some v \<Rightarrow> v)"
| "py_get v k d = Inl AttributeError"

text \<open>
  \<open>for x in v\<close>: the elements of a list, the characters of a str, the keys of a dict;
  \<open>TypeError\<close> otherwise. \<open>len(v)\<close> is defined on the same values.
\<close>

fun py_iter :: "pyval \<Rightarrow> exn + pyval list" where
  "py_iter (PList xs) = Inr xs"
| "py_iter (PStr s) = Inr (map (\<lambda>c. PStr [c]) s)"
| "py_iter (PDict kvs) = Inr (map (\<lambda>kv. PStr (fst kv)) kvs)"
| "py_iter v = Inl TypeError"

fun py_len :: "pyval \<Rightarrow> exn + int" where
  "py_len (PList xs) = Inr (int (length xs))"
| "py_len (PStr s) = Inr (int (length s))"
| "py_len (PDict kvs) = Inr (int (length kvs))"
| "py_len v = Inl TypeError"

section \<open>Event classification\<close>

text \<open>
  \<open>event['Records'] and 'k' in event['Records'][0]\<close>, the test of both inner branches
  of \<open>determine_event_source\<close>.
\<close>

definition first_record_has :: "string \<Rightarrow> pyval \<Rightarrow> exn + bool" where
  "first_record_has k event =
     (case subscript event ''Records'' of
        Inl e \<Rightarrow> Inl e
      | Inr rs \<Rightarrow>
          if \<not> truthy rs then Inr False
          else (case subscript0 rs of Inl e \<Rightarrow> Inl e | Inr r \<Rightarrow> py_in k r))"

text \<open>
  \<open>determine_event_source\<close>. The \<open>elif\<close> chain for \<open>httpMethod\<close> and \<open>source\<close> hangs
  on the outer \<open>if 'Records' in event\<close>: once that test is true, an event that matches
  neither inner branch reaches \<open>return 'unknown'\<close>.
\<close>

definition determine_event_source :: "pyval \<Rightarrow> exn + string" where
  "determine_event_source event =
     (case py_in ''Records'' event of
        Inl e \<Rightarrow> Inl e
      | Inr has_records \<Rightarrow>
          if has_records then
            (case first_record_has ''dynamodb'' event of
               Inl e \<Rightarrow> Inl e
             | Inr is_stream \<Rightarrow>
                 if is_stream then Inr ''dynamodb''
                 else (case first_record_has ''s3'' event of
                         Inl e \<Rightarrow> Inl e
                       | Inr is_s3 \<Rightarrow> if is_s3 then Inr ''s3'' else Inr ''unknown''))
          else
            (case py_in ''httpMethod'' event of
               Inl e \<Rightarrow> Inl e
             | Inr has_method \<Rightarrow>
                 (case (if has_method then py_in ''path'' event else Inr False) of
                    Inl e \<Rightarrow> Inl e
                  | Inr is_http \<Rightarrow>
                      if is_http then Inr ''api_gateway''
                      else (case py_in ''source'' event of
                              Inl e \<Rightarrow> Inl e
                            | Inr has_source \<Rightarrow>
                                (case (if has_source then subscript event ''source''
                                       else Inr PNone) of
                                   Inl e \<Rightarrow> Inl e
                                 | Inr src \<Rightarrow>
                                     if has_source \<and> src = PStr ''aws.events''
                                     then Inr ''cloudwatch_events''
                                     else Inr ''unknown'')))))"

text \<open>The five tags the classifier can return.\<close>

definition source_tags :: "string list" where
  "source_tags = [''dynamodb'', ''s3'', ''api_gateway'', ''cloudwatch_events'', ''unknown'']"

section \<open>Collaborators\<close>

text \<open>
  The key-value store, the metrics service and the notification service are external.
  Every call the handlers make is appended to a log, and what a call returns or raises
  is given by the environment as a function of the log up to and including that call,
  so a collaborator may answer the same request differently at different times.
\<close>

datatype call =
    ScanLimit int                      \<comment> \<open>\<open>scan(Limit=n)\<close>\<close>
  | ScanExpired int                    \<comment> \<open>\<open>scan(FilterExpression='expiration_time < :now')\<close>, with \<open>:now\<close>\<close>
  | DeleteItem pyval pyval             \<comment> \<open>\<open>delete_item(Key={'id': .., 'timestamp': ..})\<close>\<close>
  | PutItem "(string \<times> pyval) list"   \<comment> \<open>\<open>put_item(Item=..)\<close>\<close>
  | PutMetricData string int           \<comment> \<open>\<open>put_metric_data\<close>: metric name and value\<close>
  | SnsPublish string pyval            \<comment> \<open>\<open>sns.publish\<close>: topic and the value formatted into the message\<close>

text \<open>A scan returns a dict with an optional list of items (dicts) and an optional key.\<close>

record scan_response =
  Items :: "(string \<times> pyval) list list option"
  LastEvaluatedKey :: "pyval option"

record env =
  table_scan :: "call list \<Rightarrow> exn + scan_response"
  table_write :: "call list \<Rightarrow> exn option"    \<comment> \<open>\<open>delete_item\<close>, \<open>put_item\<close>: \<open>None\<close> when the call returns\<close>
  side_channel :: "call list \<Rightarrow> exn option"   \<comment> \<open>\<open>put_metric_data\<close>, \<open>sns.publish\<close>\<close>
  utcnow_ms :: "call list \<Rightarrow> int"             \<comment> \<open>\<open>int(datetime.utcnow().timestamp() * 1000)\<close>\<close>
  utcnow_iso :: "call list \<Rightarrow> string"         \<comment> \<open>\<open>datetime.utcnow().isoformat()\<close>\<close>
  sns_topic_arn :: "string option"              \<comment> \<open>\<open>os.getenv('SNS_TOPIC_ARN')\<close>\<close>
  deserialize :: "pyval \<Rightarrow> exn + pyval"         \<comment> \<open>boto3's \<open>TypeDeserializer.deserialize\<close>\<close>
  int_max_str_digits :: nat                     \<comment> \<open>\<open>sys.get_int_max_str_digits()\<close>, 0 when there is no limit\<close>

text \<open>The envelope \<open>{'statusCode': .., 'headers': .., 'body': json.dumps(..)}\<close>; the body is
  kept as the value that was serialised.\<close>

record response =
  statusCode :: int
  headers :: "(string \<times> string) list option"
  body :: pyval

text \<open>\<open>str(e)\<close>. For the interpreter's own exceptions, whose message is not recorded, the
  class name stands for it.\<close>

fun str_exn :: "exn \<Rightarrow> string" where
  "str_exn (KeyError k) = k"
| "str_exn (ClientError m r) = m"
| "str_exn (OtherException m) = m"
| "str_exn TypeError = ''TypeError''"
| "str_exn AttributeError = ''AttributeError''"
| "str_exn ValueError = ''ValueError''"
| "str_exn IndexError = ''IndexError''"

text \<open>\<open>json.dumps\<close> raises \<open>TypeError\<close> on a \<open>Decimal\<close> anywhere in the value.\<close>

fun serialisable :: "pyval \<Rightarrow> bool" where
  "serialisable (PDecimal n) = False"
| "serialisable (PList xs) = list_all serialisable xs"
| "serialisable (PDict kvs) = list_all serialisable (map snd kvs)"
| "serialisable v = True"

definition json_dumps :: "pyval \<Rightarrow> exn + pyval" where
  "json_dumps v = (if serialisable v then Inr v else Inl TypeError)"

text \<open>\<open>publish_metric\<close>: the call is made, and whatever it raises is logged and dropped.\<close>

definition publish_metric :: "env \<Rightarrow> string \<Rightarrow> int \<Rightarrow> call list \<Rightarrow> call list" where
  "publish_metric env metric_name v log =
     (let log' = log @ [PutMetricData metric_name v]
      in case side_channel env log' of None \<Rightarrow> log' | Some e \<Rightarrow> log')"

text \<open>\<open>send_notification\<close>: skipped without a topic; a failure to publish is dropped.\<close>

definition send_notification :: "env \<Rightarrow> pyval \<Rightarrow> call list \<Rightarrow> call list" where
  "send_notification env message log =
     (case sns_topic_arn env of
        None \<Rightarrow> log
      | Some topic_arn \<Rightarrow>
          if topic_arn = [] then log
          else (let log' = log @ [SnsPublish topic_arn message]
                in case side_channel env log' of None \<Rightarrow> log' | Some e \<Rightarrow> log'))"

text \<open>\<open>deserialize_dynamodb_item\<close>: \<open>item.items()\<close> needs a dict; the comprehension stops
  at the first value the deserializer rejects.\<close>

fun deserialize_values :: "env \<Rightarrow> (string \<times> pyval) list \<Rightarrow> exn + (string \<times> pyval) list" where
  "deserialize_values env [] = Inr []"
| "deserialize_values env ((k, v) # kvs) =
     (case deserialize env v of
        Inl e \<Rightarrow> Inl e
      | Inr v' \<Rightarrow> (case deserialize_values env kvs of
                    Inl e \<Rightarrow> Inl e
                  | Inr kvs' \<Rightarrow> Inr ((k, v') # kvs')))"

fun deserialize_dynamodb_item :: "env \<Rightarrow> pyval \<Rightarrow> exn + pyval" where
  "deserialize_dynamodb_item env (PDict kvs) =
     (case deserialize_values env kvs of Inl e \<Rightarrow> Inl e | Inr kvs' \<Rightarrow> Inr (PDict kvs'))"
| "deserialize_dynamodb_item env v = Inl AttributeError"

section \<open>The stream handler\<close>

text \<open>
  The body of the \<open>try\<close> in the loop of \<open>process_dynamodb_stream\<close>, for one record.
  \<open>Inl\<close> is the exception the \<open>except Exception\<close> clause receives.
\<close>

definition stream_record_body :: "env \<Rightarrow> pyval \<Rightarrow> call list \<Rightarrow> (exn + unit) \<times> call list" where
  "stream_record_body env record log =
     (case subscript record ''eventName'' of
        Inl e \<Rightarrow> (Inl e, log)
      | Inr event_name \<Rightarrow>
     (case subscript record ''dynamodb'' of
        Inl e \<Rightarrow> (Inl e, log)
      | Inr ddb \<Rightarrow>
     (case py_get ddb ''Keys'' (PDict []) of
        Inl e \<Rightarrow> (Inl e, log)
      | Inr keys \<Rightarrow>
     (case py_get ddb ''NewImage'' (PDict []) of
        Inl e \<Rightarrow> (Inl e, log)
      | Inr new_image \<Rightarrow>
     (case py_get ddb ''OldImage'' (PDict []) of
        Inl e \<Rightarrow> (Inl e, log)
      | Inr old_image \<Rightarrow>
     (case (if event_name = PStr ''INSERT'' \<or> event_name = PStr ''MODIFY''
               \<or> event_name = PStr ''REMOVE''
            then deserialize_dynamodb_item env keys else Inr PNone) of
        Inl e \<Rightarrow> (Inl e, log)
      | Inr logged \<Rightarrow>
          if event_name = PStr ''INSERT'' then
            (case py_in ''user_id'' new_image of
               Inl e \<Rightarrow> (Inl e, log)
             | Inr has_user \<Rightarrow>
                 if has_user then
                   (case subscript new_image ''user_id'' of
                      Inl e \<Rightarrow> (Inl e, log)
                    | Inr user \<Rightarrow>
                        (case subscript user ''S'' of
                           Inl e \<Rightarrow> (Inl e, log)
                         | Inr name \<Rightarrow> (Inr (), send_notification env name log)))
                 else (Inr (), log))
          else (Inr (), log)))))))"

text \<open>The loop, with \<open>processed_count\<close> and \<open>failed_count\<close> as accumulators.\<close>

fun stream_loop :: "env \<Rightarrow> pyval list \<Rightarrow> int \<Rightarrow> int \<Rightarrow> call list \<Rightarrow> int \<times> int \<times> call list" where
  "stream_loop env [] processed_count failed_count log = (processed_count, failed_count, log)"
| "stream_loop env (record # records) processed_count failed_count log =
     (case stream_record_body env record log of
        (Inr u, log') \<Rightarrow> stream_loop env records (processed_count + 1) failed_count log'
      | (Inl e, log') \<Rightarrow> stream_loop env records processed_count (failed_count + 1) log')"

definition process_dynamodb_stream :: "env \<Rightarrow> pyval \<Rightarrow> call list \<Rightarrow> (exn + response) \<times> call list" where
  "process_dynamodb_stream env event log =
     (case py_get event ''Records'' (PList []) of
        Inl e \<Rightarrow> (Inl e, log)
      | Inr rs \<Rightarrow>
     (case py_iter rs of
        Inl e \<Rightarrow> (Inl e, log)
      | Inr records \<Rightarrow>
     (case stream_loop env records 0 0 log of
        (processed_count, failed_count, log1) \<Rightarrow>
          (let log2 = publish_metric env ''StreamRecordsProcessed'' processed_count log1;
               log3 = (if failed_count > 0
                       then publish_metric env ''StreamRecordsFailed'' failed_count log2
                       else log2)
           in (Inr \<lparr>statusCode = 200, headers = None,
                     body = PDict [(''processed'', PInt processed_count),
                                   (''failed'', PInt failed_count)]\<rparr>, log3)))))"

text \<open>A record is malformed when the body of the \<open>try\<close> raises on it.\<close>

definition malformed :: "env \<Rightarrow> pyval \<Rightarrow> bool" where
  "malformed env record = isl (fst (stream_record_body env record []))"

section \<open>The HTTP handler of the function\<close>

definition process_api_gateway_request :: "env \<Rightarrow> pyval \<Rightarrow> call list \<Rightarrow> (exn + response) \<times> call list" where
  "process_api_gateway_request env event log =
     (case py_get event ''httpMethod'' (PStr ''GET'') of
        Inl e \<Rightarrow> (Inl e, log)
      | Inr method \<Rightarrow>
     (case py_get event ''path'' (PStr ''/'') of
        Inl e \<Rightarrow> (Inl e, log)
      | Inr path \<Rightarrow>
          if method = PStr ''GET'' \<and> path = PStr ''/items'' then
            (let log' = log @ [ScanLimit 10]
             in case table_scan env log' of
                  Inl e \<Rightarrow>
                    if is_ClientError e
                    then (Inr \<lparr>statusCode = 500, headers = None,
                               body = PDict [(''error'', PStr ''Database error'')]\<rparr>, log')
                    else (Inl e, log')
                | Inr resp \<Rightarrow>
                    (let items = (case Items resp of None \<Rightarrow> [] | Some xs \<Rightarrow> xs)
                     in case json_dumps (PDict [(''items'', PList (map PDict items))]) of
                          Inl e \<Rightarrow> (Inl e, log')
                        | Inr b \<Rightarrow>
                            (Inr \<lparr>statusCode = 200,
                                  headers = Some [(''Content-Type'', ''application/json'')],
                                  body = b\<rparr>, log')))
          else (Inr \<lparr>statusCode = 404, headers = None,
                     body = PDict [(''error'', PStr ''Not found'')]\<rparr>, log)))"

section \<open>The scheduled cleanup\<close>

text \<open>The deletion loop of \<open>process_scheduled_task\<close>: an exception leaves the loop.\<close>

fun delete_loop :: "env \<Rightarrow> (string \<times> pyval) list list \<Rightarrow> int \<Rightarrow> call list \<Rightarrow> (exn + int) \<times> call list" where
  "delete_loop env [] deleted_count log = (Inr deleted_count, log)"
| "delete_loop env (item # items) deleted_count log =
     (case subscript (PDict item) ''id'' of
        Inl e \<Rightarrow> (Inl e, log)
      | Inr item_id \<Rightarrow>
     (case subscript (PDict item) ''timestamp'' of
        Inl e \<Rightarrow> (Inl e, log)
      | Inr ts \<Rightarrow>
          (let log' = log @ [DeleteItem item_id ts]
           in case table_write env log' of
                Some e \<Rightarrow> (Inl e, log')
              | None \<Rightarrow> delete_loop env items (deleted_count + 1) log')))"

text \<open>The body of the \<open>try\<close> of \<open>process_scheduled_task\<close>.\<close>

definition scheduled_task_body :: "env \<Rightarrow> call list \<Rightarrow> (exn + response) \<times> call list" where
  "scheduled_task_body env log =
     (let current_timestamp = utcnow_ms env log;
          log1 = log @ [ScanExpired current_timestamp]
      in case table_scan env log1 of
           Inl e \<Rightarrow> (Inl e, log1)
         | Inr resp \<Rightarrow>
             (case delete_loop env (case Items resp of None \<Rightarrow> [] | Some xs \<Rightarrow> xs) 0 log1 of
                (Inl e, log2) \<Rightarrow> (Inl e, log2)
              | (Inr deleted_count, log2) \<Rightarrow>
                  (Inr \<lparr>statusCode = 200, headers = None,
                        body = PDict [(''deleted'', PInt deleted_count)]\<rparr>,
                   publish_metric env ''ExpiredItemsDeleted'' deleted_count log2)))"

text \<open>\<open>process_scheduled_task\<close>: \<open>except Exception as e\<close> answers 500 with \<open>str(e)\<close>.\<close>

definition process_scheduled_task :: "env \<Rightarrow> pyval \<Rightarrow> call list \<Rightarrow> (exn + response) \<times> call list" where
  "process_scheduled_task env event log =
     (case scheduled_task_body env log of
        (Inl e, log') \<Rightarrow>
          (Inr \<lparr>statusCode = 500, headers = None,
                body = PDict [(''error'', PStr (str_exn e))]\<rparr>, log')
      | (Inr r, log') \<Rightarrow> (Inr r, log'))"

section \<open>The object-storage handler\<close>

text \<open>\<open>key.replace('/', '-')\<close>, a method of str only.\<close>

fun py_replace_slash :: "pyval \<Rightarrow> exn + string" where
  "py_replace_slash (PStr s) = Inr (map (\<lambda>c. if c = CHR ''/'' then CHR ''-'' else c) s)"
| "py_replace_slash v = Inl AttributeError"

text \<open>
  \<open>record['s3']['bucket']['name']\<close> and \<open>record['s3']['object']['key']\<close>, read before
  the \<open>try\<close> of the loop.
\<close>

definition s3_bucket_and_key :: "pyval \<Rightarrow> exn + pyval \<times> pyval" where
  "s3_bucket_and_key record =
     (case subscript record ''s3'' of Inl e \<Rightarrow> Inl e | Inr s \<Rightarrow>
     (case subscript s ''bucket'' of Inl e \<Rightarrow> Inl e | Inr b \<Rightarrow>
     (case subscript b ''name'' of Inl e \<Rightarrow> Inl e | Inr bucket \<Rightarrow>
     (case subscript record ''s3'' of Inl e \<Rightarrow> Inl e | Inr s' \<Rightarrow>
     (case subscript s' ''object'' of Inl e \<Rightarrow> Inl e | Inr ob \<Rightarrow>
     (case subscript ob ''key'' of Inl e \<Rightarrow> Inl e | Inr key \<Rightarrow> Inr (bucket, key)))))))"

text \<open>The item \<open>put_item\<close> receives; building it raises when \<open>key\<close> is not a str.\<close>

definition s3_item :: "env \<Rightarrow> pyval \<Rightarrow> pyval \<Rightarrow> call list \<Rightarrow> exn + (string \<times> pyval) list" where
  "s3_item env bucket key log =
     (case py_replace_slash key of
        Inl e \<Rightarrow> Inl e
      | Inr k \<Rightarrow>
          Inr [(''id'', PStr (''s3-'' @ k)),
               (''timestamp'', PInt (utcnow_ms env log)),
               (''type'', PStr ''file_upload''),
               (''bucket'', bucket),
               (''key'', key),
               (''uploaded_at'', PStr (utcnow_iso env log))])"

text \<open>
  The loop of \<open>process_s3_event\<close>. Only \<open>ClientError\<close> is caught, and only around the
  \<open>put_item\<close> statement; \<open>Some e\<close> is an exception that leaves the loop.
\<close>

fun s3_loop :: "env \<Rightarrow> pyval list \<Rightarrow> call list \<Rightarrow> exn option \<times> call list" where
  "s3_loop env [] log = (None, log)"
| "s3_loop env (record # records) log =
     (case s3_bucket_and_key record of
        Inl e \<Rightarrow> (Some e, log)
      | Inr (bucket, key) \<Rightarrow>
          (case s3_item env bucket key log of
             Inl e \<Rightarrow> if is_ClientError e then s3_loop env records log else (Some e, log)
           | Inr item \<Rightarrow>
               (let log' = log @ [PutItem item]
                in case table_write env log' of
                     None \<Rightarrow> s3_loop env records log'
                   | Some e \<Rightarrow>
                       if is_ClientError e then s3_loop env records log'
                       else (Some e, log'))))"

definition process_s3_event :: "env \<Rightarrow> pyval \<Rightarrow> call list \<Rightarrow> (exn + response) \<times> call list" where
  "process_s3_event env event log =
     (case py_get event ''Records'' (PList []) of
        Inl e \<Rightarrow> (Inl e, log)
      | Inr rs \<Rightarrow>
     (case py_iter rs of
        Inl e \<Rightarrow> (Inl e, log)
      | Inr records \<Rightarrow>
     (case s3_loop env records log of
        (Some e, log') \<Rightarrow> (Inl e, log')
      | (None, log') \<Rightarrow>
          (case py_get event ''Records'' (PList []) of
             Inl e \<Rightarrow> (Inl e, log')
           | Inr rs' \<Rightarrow>
               (case py_len rs' of
                  Inl e \<Rightarrow> (Inl e, log')
                | Inr n \<Rightarrow>
                    (Inr \<lparr>statusCode = 200, headers = None,
                          body = PDict [(''processed'', PInt n)]\<rparr>, log'))))))"

section \<open>The entry point\<close>

text \<open>The context, of which only the attribute \<open>request_id\<close> is read (\<open>None\<close>: absent).\<close>

record lambda_context =
  request_id :: "string option"

text \<open>The body of the \<open>try\<close> of \<open>lambda_handler\<close>.\<close>

definition dispatch :: "env \<Rightarrow> pyval \<Rightarrow> call list \<Rightarrow> (exn + response) \<times> call list" where
  "dispatch env event log =
     (case determine_event_source event of
        Inl e \<Rightarrow> (Inl e, log)
      | Inr event_source \<Rightarrow>
          if event_source = ''dynamodb'' then process_dynamodb_stream env event log
          else if event_source = ''api_gateway'' then process_api_gateway_request env event log
          else if event_source = ''cloudwatch_events'' then process_scheduled_task env event log
          else if event_source = ''s3'' then process_s3_event env event log
          else (Inr \<lparr>statusCode = 400, headers = None,
                     body = PDict [(''error'', PStr ''Unknown event source'')]\<rparr>, log))"

text \<open>
  \<open>lambda_handler\<close>. The two logging statements before the \<open>try\<close> read
  \<open>context.request_id\<close> and classify the event; what they raise leaves the handler.
\<close>

definition lambda_handler :: "env \<Rightarrow> pyval \<Rightarrow> lambda_context \<Rightarrow> call list \<Rightarrow> (exn + response) \<times> call list" where
  "lambda_handler env event context log =
     (case request_id context of
        None \<Rightarrow> (Inl AttributeError, log)
      | Some rid \<Rightarrow>
     (case determine_event_source event of
        Inl e \<Rightarrow> (Inl e, log)
      | Inr logged_source \<Rightarrow>
     (case dispatch env event log of
        (Inl e, log') \<Rightarrow>
          (Inr \<lparr>statusCode = 500, headers = None,
                body = PDict [(''error'', PStr ''Internal error'')]\<rparr>, log')
      | (Inr r, log') \<Rightarrow> (Inr r, log'))))"

section \<open>The list operation of the REST service\<close>

text \<open>
  \<open>int(s)\<close> on a str, base 10. White space around the number is skipped: the ASCII
  characters 9 to 13 and 32, and of the other code points below 256 the two that are
  Unicode white space, 0x85 and 0xA0 (the separators 0x1C to 0x1F are not skipped).
  Then come one optional sign and the digits \<open>0\<close> to \<open>9\<close>, the only decimal digits below
  256, with single underscores allowed between digits. Anything else is a
  \<open>ValueError\<close>, and so is a number of more digits than the interpreter's limit, when
  that count exceeds 640 and the limit is on.
\<close>

definition is_space :: "char \<Rightarrow> bool" where
  "is_space c = ((9 \<le> (of_char c :: nat) \<and> (of_char c :: nat) \<le> 13)
                 \<or> (of_char c :: nat) = 32
                 \<or> (of_char c :: nat) = 133
                 \<or> (of_char c :: nat) = 160)"

definition is_digit :: "char \<Rightarrow> bool" where
  "is_digit c = (48 \<le> (of_char c :: nat) \<and> (of_char c :: nat) \<le> 57)"

definition strip :: "string \<Rightarrow> string" where
  "strip s = rev (dropWhile is_space (rev (dropWhile is_space s)))"

text \<open>The value of a digit string and the number of its digits.\<close>

fun parse_digits :: "string \<Rightarrow> int \<Rightarrow> nat \<Rightarrow> bool \<Rightarrow> (int \<times> nat) option" where
  "parse_digits [] acc count after_digit = (if after_digit then Some (acc, count) else None)"
| "parse_digits (c # cs) acc count after_digit =
     (if is_digit c then parse_digits cs (10 * acc + (int (of_char c) - 48)) (Suc count) True
      else if c = CHR ''_'' \<and> after_digit then parse_digits cs acc count False
      else None)"

definition py_int :: "nat \<Rightarrow> string \<Rightarrow> exn + int" where
  "py_int max_digits s =
     (let t = strip s;
          sign = (case t of c # r \<Rightarrow> if c = CHR ''-'' then - 1 else 1 | [] \<Rightarrow> 1);
          digits = (case t of c # r \<Rightarrow> if c = CHR ''-'' \<or> c = CHR ''+'' then r else t | [] \<Rightarrow> t)
      in case parse_digits digits 0 0 False of
           None \<Rightarrow> Inl ValueError
         | Some (n, count) \<Rightarrow>
             if 640 < count \<and> max_digits \<noteq> 0 \<and> max_digits < count then Inl ValueError
             else Inr (sign * n))"

text \<open>\<open>int(request.args.get('limit', 10))\<close>; \<open>request.args\<close> is the query string, and
  \<open>get\<close> returns the first value of a key.\<close>

definition limit_arg :: "env \<Rightarrow> (string \<times> string) list \<Rightarrow> exn + int" where
  "limit_arg env args =
     (case map_of args ''limit'' of
        None \<Rightarrow> Inr 10
      | Some s \<Rightarrow> py_int (int_max_str_digits env) s)"

text \<open>
  \<open>list_items\<close> answers with the pair of the JSON body and the status. Only
  \<open>ClientError\<close> is caught; the \<open>ValueError\<close> of \<open>int\<close> leaves the handler. The
  \<open>except\<close> clause reads \<open>e.response['Error']['Message']\<close> for its log line before it
  answers, and what that lookup raises leaves the handler too.
\<close>

definition list_items :: "env \<Rightarrow> (string \<times> string) list \<Rightarrow> call list \<Rightarrow> (exn + pyval \<times> int) \<times> call list" where
  "list_items env args log =
     (case limit_arg env args of
        Inl e \<Rightarrow> (Inl e, log)
      | Inr n \<Rightarrow>
          (let limit = min n 100;
               log' = log @ [ScanLimit limit]
           in case table_scan env log' of
                Inl e \<Rightarrow>
                  (case e of
                     ClientError m r \<Rightarrow>
                       (case subscript r ''Error'' of
                          Inl e' \<Rightarrow> (Inl e', log')
                        | Inr err \<Rightarrow>
                            (case subscript err ''Message'' of
                               Inl e' \<Rightarrow> (Inl e', log')
                             | Inr msg \<Rightarrow>
                                 (Inr (PDict [(''error'', PStr ''Database error'')], 500), log')))
                   | _ \<Rightarrow> (Inl e, log'))
              | Inr resp \<Rightarrow>
                  (let items = (case Items resp of None \<Rightarrow> [] | Some xs \<Rightarrow> xs)
                   in (Inr (PDict [(''items'', PList (map PDict items)),
                                   (''count'', PInt (int (length items))),
                                   (''last_evaluated_key'',
                                      (case LastEvaluatedKey resp of None \<Rightarrow> PNone | Some k \<Rightarrow> k)),
                                   (''message'',
                                      PStr ''Use last_evaluated_key parameter for next page'')],
                            200), log'))))"

text \<open>The \<open>Limit\<close> of every scan in a log.\<close>

fun scan_limits :: "call list \<Rightarrow> int list" where
  "scan_limits [] = []"
| "scan_limits (ScanLimit n # cs) = n # scan_limits cs"
| "scan_limits (c # cs) = scan_limits cs"

section \<open>Concrete environments and events\<close>

text \<open>What the cleanup loop sends to the store for an item that has both key attributes.\<close>

definition delete_call :: "(string \<times> pyval) list \<Rightarrow> call" where
  "delete_call item =
     DeleteItem (case map_of item ''id'' of None \<Rightarrow> PNone | Some v \<Rightarrow> v)
                (case map_of item ''timestamp'' of None \<Rightarrow> PNone | Some v \<Rightarrow> v)"

text \<open>The number of \<open>put_item\<close> calls in a log.\<close>

fun put_count :: "call list \<Rightarrow> nat" where
  "put_count [] = 0"
| "put_count (PutItem item # cs) = Suc (put_count cs)"
| "put_count (c # cs) = put_count cs"

text \<open>The \<open>e.response\<close> of a \<open>ClientError\<close> with an error code and a message.\<close>

definition error_response :: "string \<Rightarrow> string \<Rightarrow> pyval" where
  "error_response code message =
     PDict [(''Error'', PDict [(''Code'', PStr code), (''Message'', PStr message)])]"

text \<open>A store that is empty and never fails, no notification topic, an identity
  deserializer, a clock that stands still, the interpreter's default digit limit.\<close>

definition quiet_env :: env where
  "quiet_env =
     \<lparr>table_scan = (\<lambda>log. Inr \<lparr>Items = Some [], LastEvaluatedKey = None\<rparr>),
      table_write = (\<lambda>log. None),
      side_channel = (\<lambda>log. None),
      utcnow_ms = (\<lambda>log. 1700000000000),
      utcnow_iso = (\<lambda>log. ''2023-11-14T22:13:20''),
      sns_topic_arn = None,
      deserialize = (\<lambda>v. Inr v),
      int_max_str_digits = 4300\<rparr>"

text \<open>Three expired items; the store refuses the second deletion, which is the third
  call it receives after the scan and the first deletion.\<close>

definition expired_items :: "(string \<times> pyval) list list" where
  "expired_items =
     [[(''id'', PStr ''a''), (''timestamp'', PDecimal 1)],
      [(''id'', PStr ''b''), (''timestamp'', PDecimal 2)],
      [(''id'', PStr ''c''), (''timestamp'', PDecimal 3)]]"

definition cleanup_env :: env where
  "cleanup_env =
     quiet_env\<lparr>table_scan := (\<lambda>log. Inr \<lparr>Items = Some expired_items, LastEvaluatedKey = None\<rparr>),
               table_write := (\<lambda>log. if length log = 3
                                       then Some (ClientError ''ProvisionedThroughputExceededException''
                                                    (error_response ''ProvisionedThroughputExceededException''
                                                       ''Rate exceeded''))
                                       else None)\<rparr>"

text \<open>A store whose scan is refused, with the text botocore gives the exception.\<close>

definition denied_text :: string where
  "denied_text = ''An error occurred (AccessDeniedException) when calling the Scan operation: User: arn:aws:sts::123456789012:assumed-role/processor is not authorized to perform: dynamodb:Scan on resource: arn:aws:dynamodb:us-east-1:123456789012:table/startup-data''"

definition denied_env :: env where
  "denied_env =
     quiet_env\<lparr>table_scan := (\<lambda>log. Inl (ClientError denied_text
                                          (error_response ''AccessDeniedException''
                                             ''User is not authorized'')))\<rparr>"

definition scheduled_event :: pyval where
  "scheduled_event = PDict [(''source'', PStr ''aws.events'')]"

text \<open>A stream batch of three records, the second without \<open>eventName\<close>.\<close>

definition stream_records :: "pyval list" where
  "stream_records =
     [PDict [(''eventName'', PStr ''INSERT''),
             (''dynamodb'', PDict [(''Keys'', PDict [(''id'', PDict [(''S'', PStr ''item1'')])])])],
      PDict [(''dynamodb'', PDict [])],
      PDict [(''eventName'', PStr ''REMOVE''),
             (''dynamodb'', PDict [(''Keys'', PDict [(''id'', PDict [(''S'', PStr ''item2'')])])])]]"

text \<open>An object-storage record, and a batch of three whose second record has an empty
  \<open>s3\<close> entry.\<close>

definition s3_record :: "string \<Rightarrow> string \<Rightarrow> pyval" where
  "s3_record bucket key =
     PDict [(''eventName'', PStr ''ObjectCreated:Put''),
            (''s3'', PDict [(''bucket'', PDict [(''name'', PStr bucket)]),
                            (''object'', PDict [(''key'', PStr key)])])]"

definition s3_broken_batch :: pyval where
  "s3_broken_batch =
     PDict [(''Records'', PList [s3_record ''uploads'' ''a/1.jpg'',
                                 PDict [(''s3'', PDict [])],
                                 s3_record ''uploads'' ''a/3.jpg''])]"

text \<open>A batch of two well-formed object-storage records, and a store that throttles
  every write.\<close>

definition s3_batch :: pyval where
  "s3_batch = PDict [(''Records'', PList [s3_record ''uploads'' ''a/1.jpg'',
                                          s3_record ''uploads'' ''b/2.jpg''])]"

definition throttled_env :: env where
  "throttled_env =
     quiet_env\<lparr>table_write := (\<lambda>log. Some (ClientError ''ThrottlingException''
                                              (error_response ''ThrottlingException''
                                                 ''Rate exceeded'')))\<rparr>"

definition demo_context :: lambda_context where
  "demo_context = \<lparr>request_id = Some ''8f3c2a''\<rparr>"

section \<open>Classification: results\<close>

lemma first_record_has_empty:
  "map_of kvs ''Records'' = Some (PList []) \<Longrightarrow> first_record_has k (PDict kvs) = Inr False"
  by (simp add: first_record_has_def)

lemma first_record_has_total:
  assumes "map_of kvs ''Records'' = Some rs"
    and "\<not> truthy rs \<or> (\<exists>r rest. rs = PList (r # rest) \<and>
            ((\<exists>d. r = PDict d) \<or> (\<exists>xs. r = PList xs) \<or> (\<exists>s. r = PStr s)))"
  shows "\<exists>b. first_record_has k (PDict kvs) = Inr b"
  using assms by (auto simp: first_record_has_def)

lemma no_records_total:
  assumes "map_of kvs ''Records'' = None"
  shows "determine_event_source (PDict kvs) \<in> Inr ` set source_tags"
  using assms
  by (auto simp: determine_event_source_def source_tags_def split: option.splits)

lemma records_total:
  assumes "map_of kvs ''Records'' = Some rs"
    and "\<not> truthy rs \<or> (\<exists>r rest. rs = PList (r # rest) \<and>
            ((\<exists>d. r = PDict d) \<or> (\<exists>xs. r = PList xs) \<or> (\<exists>s. r = PStr s)))"
  shows "determine_event_source (PDict kvs) \<in> Inr ` set source_tags"
proof -
  obtain b1 where b1: "first_record_has ''dynamodb'' (PDict kvs) = Inr b1"
    using first_record_has_total[OF assms] by blast
  obtain b2 where b2: "first_record_has ''s3'' (PDict kvs) = Inr b2"
    using first_record_has_total[OF assms] by blast
  show ?thesis using assms(1) b1 b2
    by (simp add: determine_event_source_def source_tags_def)
qed

text \<open>
  C2, as amended. The classifier has no guard against an event that is not a dict or
  against a first record that is not a container. For every event that is a dict in
  which \<open>Records\<close> is absent, or falsy (empty), or a non-empty list whose first element
  is a dict, a list or a str, \<open>determine_event_source\<close> raises nothing and returns one
  of the five tags.
\<close>

theorem classify_total_on_dict_events:
  assumes "case map_of kvs ''Records'' of
             None \<Rightarrow> True
           | Some rs \<Rightarrow> \<not> truthy rs \<or> (\<exists>r rest. rs = PList (r # rest) \<and>
               ((\<exists>d. r = PDict d) \<or> (\<exists>xs. r = PList xs) \<or> (\<exists>s. r = PStr s)))"
  shows "\<exists>tag. determine_event_source (PDict kvs) = Inr tag \<and> tag \<in> set source_tags"
proof (cases "map_of kvs ''Records''")
  case None
  then show ?thesis using no_records_total[of kvs] by auto
next
  case (Some rs)
  with assms show ?thesis using records_total[of kvs rs] by auto
qed

theorem classify_total_on_dict_events_witness:
  "\<exists>tag. determine_event_source
            (PDict [(''Records'', PList [PDict [(''s3'', PDict [])]])]) = Inr tag
         \<and> tag \<in> set source_tags"
  using classify_total_on_dict_events[of "[(''Records'', PList [PDict [(''s3'', PDict [])]])]"]
  by simp

text \<open>
  C2 as stated fails: on the null event \<open>'Records' in None\<close> raises \<open>TypeError\<close>, and so
  does \<open>'dynamodb' in 5\<close> on a dict event whose first record is a number.
\<close>

theorem classify_raises_counterexample:
  "determine_event_source PNone = Inl TypeError
   \<and> determine_event_source (PDict [(''Records'', PList [PInt 5])]) = Inl TypeError"
  by (simp add: determine_event_source_def first_record_has_def)

text \<open>
  C3, as amended. For every event whose \<open>Records\<close> sequence is empty and that also has
  both \<open>httpMethod\<close> and \<open>path\<close>, the classifier matches neither records branch and does
  not reach the later tests: it returns \<open>unknown\<close>, not \<open>api_gateway\<close>.
\<close>

theorem empty_records_with_method_and_path:
  assumes "map_of kvs ''Records'' = Some (PList [])"
    and "map_of kvs ''httpMethod'' = Some m"
    and "map_of kvs ''path'' = Some p"
  shows "determine_event_source (PDict kvs) = Inr ''unknown''
         \<and> determine_event_source (PDict kvs) \<noteq> Inr ''api_gateway''"
  using assms(1) by (simp add: determine_event_source_def first_record_has_empty)

theorem empty_records_with_method_and_path_witness:
  "determine_event_source
     (PDict [(''httpMethod'', PStr ''GET''), (''path'', PStr ''/items''),
             (''Records'', PList [])]) = Inr ''unknown''"
  using empty_records_with_method_and_path
          [of "[(''httpMethod'', PStr ''GET''), (''path'', PStr ''/items''),
                (''Records'', PList [])]" "PStr ''GET''" "PStr ''/items''"]
  by simp

text \<open>C3 as stated fails: such an event is not classified as \<open>api_gateway\<close>.\<close>

theorem empty_records_not_http_counterexample:
  "determine_event_source
     (PDict [(''Records'', PList []), (''httpMethod'', PStr ''GET''),
             (''path'', PStr ''/items'')]) \<noteq> Inr ''api_gateway''"
  by (simp add: determine_event_source_def first_record_has_def)

text \<open>
  C4. For every event whose \<open>Records\<close> sequence is empty, the classifier returns
  \<open>unknown\<close>, hence neither \<open>dynamodb\<close> nor \<open>s3\<close>.
\<close>

theorem empty_records_unknown:
  assumes "map_of kvs ''Records'' = Some (PList [])"
  shows "determine_event_source (PDict kvs) = Inr ''unknown''"
  using assms by (simp add: determine_event_source_def first_record_has_empty)

theorem empty_records_unknown_witness:
  "determine_event_source (PDict [(''Records'', PList []), (''source'', PStr ''aws.events'')])
     = Inr ''unknown''"
  using empty_records_unknown[of "[(''Records'', PList []), (''source'', PStr ''aws.events'')]"]
  by simp

section \<open>The stream handler: results\<close>

text \<open>Whether the body raises on a record does not depend on the calls made so far.\<close>

lemma stream_record_body_outcome:
  "fst (stream_record_body env r log) = fst (stream_record_body env r [])"
  by (simp add: stream_record_body_def split: sum.splits)

lemma stream_loop_counts:
  "\<exists>log'. stream_loop env rs p f log =
     (p + int (length (filter (\<lambda>r. \<not> malformed env r) rs)),
      f + int (length (filter (malformed env) rs)), log')"
proof (induction rs arbitrary: p f log)
  case Nil
  then show ?case by simp
next
  case (Cons r rs)
  obtain res log1 where b: "stream_record_body env r log = (res, log1)"
    by (cases "stream_record_body env r log")
  have m: "malformed env r = isl res"
    using b stream_record_body_outcome[of env r log] by (simp add: malformed_def)
  show ?case
  proof (cases res)
    case (Inl e)
    with b m Cons.IH[of p "f + 1" log1] show ?thesis by auto
  next
    case (Inr u)
    with b m Cons.IH[of "p + 1" f log1] show ?thesis by auto
  qed
qed

lemma count_well_formed:
  "int (length (filter (\<lambda>r. \<not> P r) rs)) = int (length rs) - int (length (filter P rs))"
  using sum_length_filter_compl[of P rs] by linarith

text \<open>
  C1. For every event whose \<open>Records\<close> is a list of N records of which M are malformed,
  \<open>process_dynamodb_stream\<close> returns status 200 with \<open>processed = N - M\<close> and
  \<open>failed = M\<close>: every record is attempted, and the two counts add up to N.
\<close>

theorem stream_batch_counts:
  assumes "py_get event ''Records'' (PList []) = Inr (PList records)"
  shows "\<exists>log'. process_dynamodb_stream env event log =
           (Inr \<lparr>statusCode = 200, headers = None,
                 body = PDict [(''processed'', PInt (int (length records)
                                   - int (length (filter (malformed env) records)))),
                               (''failed'', PInt (int (length (filter (malformed env) records))))]\<rparr>,
            log')"
proof -
  obtain log1 where l: "stream_loop env records 0 0 log =
     (int (length (filter (\<lambda>r. \<not> malformed env r) records)),
      int (length (filter (malformed env) records)), log1)"
    using stream_loop_counts[of env records 0 0 log] by auto
  show ?thesis
    using assms l by (simp add: process_dynamodb_stream_def count_well_formed Let_def)
qed

lemma stream_records_malformed:
  "filter (malformed quiet_env) stream_records = [PDict [(''dynamodb'', PDict [])]]"
  by (simp add: stream_records_def malformed_def stream_record_body_def quiet_env_def)

theorem stream_batch_counts_witness:
  "\<exists>log'. process_dynamodb_stream quiet_env (PDict [(''Records'', PList stream_records)]) [] =
           (Inr \<lparr>statusCode = 200, headers = None,
                 body = PDict [(''processed'', PInt 2), (''failed'', PInt 1)]\<rparr>, log')"
  using stream_batch_counts[of "PDict [(''Records'', PList stream_records)]" stream_records
          quiet_env "[]"]
  by (simp add: stream_records_malformed) (simp add: stream_records_def)

section \<open>The scheduled cleanup: results\<close>

lemma delete_loop_abort:
  assumes "k < length items"
    and "\<forall>i\<le>k. map_of (items ! i) ''id'' \<noteq> None \<and> map_of (items ! i) ''timestamp'' \<noteq> None"
    and "\<forall>j<k. table_write env (log @ map delete_call (take (Suc j) items)) = None"
    and "table_write env (log @ map delete_call (take (Suc k) items)) = Some e"
  shows "delete_loop env items n log = (Inl e, log @ map delete_call (take (Suc k) items))"
  using assms
proof (induction items arbitrary: k n log)
  case Nil
  then show ?case by simp
next
  case (Cons item items)
  from Cons.prems(2) have "map_of item ''id'' \<noteq> None" "map_of item ''timestamp'' \<noteq> None"
    by (metis le0 nth_Cons_0)+
  then obtain vi vt where v: "map_of item ''id'' = Some vi" "map_of item ''timestamp'' = Some vt"
    by auto
  have dc: "delete_call item = DeleteItem vi vt" using v by (simp add: delete_call_def)
  show ?case
  proof (cases k)
    case 0
    with Cons.prems(4) v dc show ?thesis by simp
  next
    case (Suc k')
    have first: "table_write env (log @ [delete_call item]) = None"
      using Cons.prems(3)[rule_format, of 0] Suc by simp
    have a1: "k' < length items" using Cons.prems(1) Suc by simp
    have a2: "\<forall>i\<le>k'. map_of (items ! i) ''id'' \<noteq> None
                     \<and> map_of (items ! i) ''timestamp'' \<noteq> None"
    proof (intro allI impI)
      fix i assume "i \<le> k'"
      then have "Suc i \<le> k" using Suc by simp
      from Cons.prems(2)[rule_format, OF this]
      show "map_of (items ! i) ''id'' \<noteq> None \<and> map_of (items ! i) ''timestamp'' \<noteq> None"
        by simp
    qed
    have a3: "\<forall>j<k'. table_write env
                ((log @ [delete_call item]) @ map delete_call (take (Suc j) items)) = None"
    proof (intro allI impI)
      fix j assume "j < k'"
      then have "Suc j < k" using Suc by simp
      from Cons.prems(3)[rule_format, OF this]
      show "table_write env
              ((log @ [delete_call item]) @ map delete_call (take (Suc j) items)) = None"
        by simp
    qed
    have a4: "table_write env
                ((log @ [delete_call item]) @ map delete_call (take (Suc k') items)) = Some e"
      using Cons.prems(4) Suc by simp
    from Cons.IH[OF a1 a2 a3 a4, of "n + 1"] first v dc show ?thesis
      using Suc by simp
  qed
qed

text \<open>
  C5. When the scan returns a sequence of items and the deletion of the item at
  position \<open>k\<close> (counted from 0) is the first to fail, the handler answers 500 and the
  calls it has made are the scan and the deletions of the items up to position \<open>k\<close>:
  no deletion is attempted for a later item.
\<close>

theorem cleanup_stops_at_failed_delete:
  assumes "table_scan env (log @ [ScanExpired (utcnow_ms env log)]) = Inr resp"
    and "Items resp = Some items"
    and "k < length items"
    and "\<forall>i\<le>k. map_of (items ! i) ''id'' \<noteq> None \<and> map_of (items ! i) ''timestamp'' \<noteq> None"
    and "\<forall>j<k. table_write env
           (log @ ScanExpired (utcnow_ms env log) # map delete_call (take (Suc j) items)) = None"
    and "table_write env
           (log @ ScanExpired (utcnow_ms env log) # map delete_call (take (Suc k) items)) = Some e"
  shows "process_scheduled_task env event log =
           (Inr \<lparr>statusCode = 500, headers = None,
                 body = PDict [(''error'', PStr (str_exn e))]\<rparr>,
            log @ ScanExpired (utcnow_ms env log) # map delete_call (take (Suc k) items))"
proof -
  let ?log1 = "log @ [ScanExpired (utcnow_ms env log)]"
  have "delete_loop env items 0 ?log1 = (Inl e, ?log1 @ map delete_call (take (Suc k) items))"
    by (rule delete_loop_abort) (use assms in simp_all)
  then show ?thesis
    using assms(1,2) by (simp add: process_scheduled_task_def scheduled_task_body_def Let_def)
qed

text \<open>Three expired items, the second deletion refused: 500, and the third item is
  never sent to the store.\<close>

theorem cleanup_stops_at_failed_delete_witness:
  "process_scheduled_task cleanup_env scheduled_event [] =
     (Inr \<lparr>statusCode = 500, headers = None,
           body = PDict [(''error'', PStr ''ProvisionedThroughputExceededException'')]\<rparr>,
      [ScanExpired 1700000000000,
       DeleteItem (PStr ''a'') (PDecimal 1),
       DeleteItem (PStr ''b'') (PDecimal 2)])"
proof -
  have "\<forall>i\<le>Suc 0. map_of (expired_items ! i) ''id'' \<noteq> None
                  \<and> map_of (expired_items ! i) ''timestamp'' \<noteq> None"
    by (simp add: expired_items_def le_Suc_eq)
  then show ?thesis
    using cleanup_stops_at_failed_delete[of cleanup_env "[]"
            "\<lparr>Items = Some expired_items, LastEvaluatedKey = None\<rparr>" expired_items 1
            "ClientError ''ProvisionedThroughputExceededException''
               (error_response ''ProvisionedThroughputExceededException'' ''Rate exceeded'')"
            scheduled_event]
    by (simp add: cleanup_env_def quiet_env_def expired_items_def delete_call_def)
qed

text \<open>
  C6. The scheduled cleanup puts \<open>str(e)\<close> into the body of its 500 answer: when the
  scan is refused, the caller receives the store's own text, role and table names
  included. On the same store the HTTP handler of the function answers with the fixed
  text \<open>Database error\<close>.
\<close>

theorem scheduled_task_exposes_exception_text:
  "process_scheduled_task denied_env scheduled_event [] =
     (Inr \<lparr>statusCode = 500, headers = None, body = PDict [(''error'', PStr denied_text)]\<rparr>,
      [ScanExpired 1700000000000])
   \<and> fst (process_api_gateway_request denied_env
            (PDict [(''httpMethod'', PStr ''GET''), (''path'', PStr ''/items'')]) []) =
      Inr \<lparr>statusCode = 500, headers = None,
           body = PDict [(''error'', PStr ''Database error'')]\<rparr>"
  by (simp add: process_scheduled_task_def scheduled_task_body_def denied_env_def quiet_env_def
      process_api_gateway_request_def Let_def)

section \<open>The object-storage handler: results\<close>

lemma put_count_append: "put_count (xs @ ys) = put_count xs + put_count ys"
  by (induction xs rule: put_count.induct) simp_all

lemma s3_loop_all_put:
  assumes "\<forall>r\<in>set records. \<exists>bucket key. s3_bucket_and_key r = Inr (bucket, PStr key)"
    and "\<forall>l e. table_write env l = Some e \<longrightarrow> is_ClientError e"
  shows "\<exists>log'. s3_loop env records log = (None, log')
           \<and> put_count log' = put_count log + length records"
  using assms(1)
proof (induction records arbitrary: log)
  case Nil
  then show ?case by simp
next
  case (Cons r rs)
  then obtain bucket key where bk: "s3_bucket_and_key r = Inr (bucket, PStr key)" by auto
  obtain item where it: "s3_item env bucket (PStr key) log = Inr item"
    by (simp add: s3_item_def)
  from Cons have rest: "\<forall>r\<in>set rs. \<exists>bucket key. s3_bucket_and_key r = Inr (bucket, PStr key)"
    by simp
  obtain log' where l: "s3_loop env rs (log @ [PutItem item]) = (None, log')"
      "put_count log' = put_count (log @ [PutItem item]) + length rs"
    using Cons.IH[OF rest, of "log @ [PutItem item]"] by auto
  show ?case
  proof (cases "table_write env (log @ [PutItem item])")
    case None
    with bk it l show ?thesis by (simp add: put_count_append)
  next
    case (Some e)
    with assms(2) have "is_ClientError e" by blast
    with Some bk it l show ?thesis by (simp add: put_count_append)
  qed
qed

text \<open>
  C7, as amended. For every batch whose records all carry \<open>s3.bucket.name\<close> and
  \<open>s3.object.key\<close> with a str key, and a store whose \<open>put_item\<close> fails only with
  \<open>ClientError\<close>, each failure is swallowed without being counted: one \<open>put_item\<close> is
  attempted per record, and the answer has status 200 with \<open>processed\<close> equal to the
  number of records in the batch.
\<close>

theorem s3_batch_swallows_client_errors:
  assumes "py_get event ''Records'' (PList []) = Inr (PList records)"
    and "\<forall>r\<in>set records. \<exists>bucket key. s3_bucket_and_key r = Inr (bucket, PStr key)"
    and "\<forall>l e. table_write env l = Some e \<longrightarrow> is_ClientError e"
  shows "\<exists>log'. process_s3_event env event log =
           (Inr \<lparr>statusCode = 200, headers = None,
                 body = PDict [(''processed'', PInt (int (length records)))]\<rparr>, log')
         \<and> put_count log' = put_count log + length records"
proof -
  obtain log' where "s3_loop env records log = (None, log')"
      "put_count log' = put_count log + length records"
    using s3_loop_all_put[OF assms(2,3)] by blast
  then show ?thesis using assms(1) by (simp add: process_s3_event_def)
qed

text \<open>Two records, every write throttled: 200, \<open>processed = 2\<close>, two writes attempted.\<close>

theorem s3_batch_swallows_client_errors_witness:
  "\<exists>log'. process_s3_event throttled_env s3_batch [] =
           (Inr \<lparr>statusCode = 200, headers = None,
                 body = PDict [(''processed'', PInt 2)]\<rparr>, log')
         \<and> put_count log' = 2"
proof -
  have wf: "\<forall>r\<in>set [s3_record ''uploads'' ''a/1.jpg'', s3_record ''uploads'' ''b/2.jpg''].
              \<exists>bucket key. s3_bucket_and_key r = Inr (bucket, PStr key)"
    by (simp add: s3_bucket_and_key_def s3_record_def)
  have ce: "\<forall>l e. table_write throttled_env l = Some e \<longrightarrow> is_ClientError e"
    by (auto simp: throttled_env_def)
  have ev: "py_get s3_batch ''Records'' (PList []) =
              Inr (PList [s3_record ''uploads'' ''a/1.jpg'', s3_record ''uploads'' ''b/2.jpg''])"
    by (simp add: s3_batch_def)
  show ?thesis
    using s3_batch_swallows_client_errors[OF ev wf ce, of "[]"]
    by (simp add: numeral_2_eq_2)
qed

text \<open>
  C7 as stated fails: a record without \<open>s3.bucket\<close> raises \<open>KeyError\<close> outside the
  \<open>try\<close>; the exception leaves the handler, the third record is never written, and
  the entry point answers 500.
\<close>

theorem s3_batch_aborts_counterexample:
  "process_s3_event quiet_env s3_broken_batch [] =
     (Inl (KeyError (repr_key ''bucket'')),
      [PutItem [(''id'', PStr ''s3-a-1.jpg''), (''timestamp'', PInt 1700000000000),
                (''type'', PStr ''file_upload''), (''bucket'', PStr ''uploads''),
                (''key'', PStr ''a/1.jpg''), (''uploaded_at'', PStr ''2023-11-14T22:13:20'')]])
   \<and> statusCode (projr (fst (lambda_handler quiet_env s3_broken_batch demo_context []))) = 500"
  by (simp add: process_s3_event_def s3_broken_batch_def s3_record_def s3_bucket_and_key_def
      s3_item_def quiet_env_def lambda_handler_def dispatch_def demo_context_def
      determine_event_source_def first_record_has_def)

section \<open>The list operation: results\<close>

lemma py_int_500: "py_int max_digits ''500'' = Inr 500"
  by (simp add: py_int_def strip_def is_space_def is_digit_def)

lemma py_int_100: "py_int max_digits ''100'' = Inr 100"
  by (simp add: py_int_def strip_def is_space_def is_digit_def)

lemma py_int_0: "py_int max_digits ''0'' = Inr 0"
  by (simp add: py_int_def strip_def is_space_def is_digit_def)

text \<open>A no-break space before the digit is skipped, a unit separator is not, and a limit
  that does not convert is answered before any call to the store.\<close>

lemma py_int_no_break_space: "py_int max_digits [CHR 0xA0, CHR ''5''] = Inr 5"
  by (simp add: py_int_def strip_def is_space_def is_digit_def)

lemma py_int_unit_separator: "py_int max_digits [CHR 0x1F, CHR ''5''] = Inl ValueError"
  by (simp add: py_int_def strip_def is_space_def is_digit_def)

lemma list_items_bad_limit:
  "limit_arg env args = Inl e \<Longrightarrow> list_items env args log = (Inl e, log)"
  by (simp add: list_items_def)

lemma list_items_log:
  "limit_arg env args = Inr n \<Longrightarrow> snd (list_items env args log) = log @ [ScanLimit (min n 100)]"
  by (simp add: list_items_def Let_def split: sum.splits exn.splits)

text \<open>
  C8, as amended. For every \<open>GET /api/items\<close> request whose limit converts to an
  integer \<open>n\<close> (10 when absent), the page size of the store scan is \<open>min n 100\<close>: the
  limit is capped at 100 and has no lower bound. A request with \<open>limit=500\<close> is treated
  exactly as \<open>limit=100\<close>.
\<close>

theorem list_items_caps_limit:
  assumes "limit_arg env args = Inr n"
  shows "snd (list_items env args log) = log @ [ScanLimit (min n 100)]
         \<and> min n 100 \<le> 100
         \<and> list_items env [(''limit'', ''500'')] log = list_items env [(''limit'', ''100'')] log"
proof -
  have "limit_arg env [(''limit'', ''500'')] = Inr 500"
       "limit_arg env [(''limit'', ''100'')] = Inr 100"
    by (simp_all add: limit_arg_def py_int_500 py_int_100)
  then have "list_items env [(''limit'', ''500'')] log = list_items env [(''limit'', ''100'')] log"
    by (simp add: list_items_def)
  with list_items_log[OF assms, of log] show ?thesis by simp
qed

theorem list_items_caps_limit_witness:
  "snd (list_items quiet_env [(''limit'', ''500'')] []) = [ScanLimit 100]"
proof -
  have h: "limit_arg quiet_env [(''limit'', ''500'')] = Inr 500"
    by (simp add: limit_arg_def py_int_500)
  have "snd (list_items quiet_env [(''limit'', ''500'')] []) = [] @ [ScanLimit (min 500 100)]"
    using list_items_caps_limit[OF h, of "[]"] by (rule conjunct1)
  then show ?thesis by simp
qed

text \<open>C8 as stated fails: \<open>limit=0\<close> reaches the store as page size 0, below 1.\<close>

theorem list_items_limit_zero_counterexample:
  "scan_limits (snd (list_items quiet_env [(''limit'', ''0'')] [])) = [0]"
  by (simp add: list_items_def limit_arg_def py_int_0 quiet_env_def Let_def)

lemma map_of_filter_other:
  "k \<noteq> k' \<Longrightarrow> map_of (filter (\<lambda>p. fst p \<noteq> k') args) k = map_of args k"
  by (induction args) auto

text \<open>
  C9. Two \<open>GET /api/items\<close> requests whose query strings differ only in the value or
  the presence of \<open>last_key\<close> make the same store call and, in the same environment,
  receive the same answer.
\<close>

theorem list_items_ignores_last_key:
  assumes "filter (\<lambda>p. fst p \<noteq> ''last_key'') args1 = filter (\<lambda>p. fst p \<noteq> ''last_key'') args2"
  shows "list_items env args1 log = list_items env args2 log"
proof -
  have "map_of args1 ''limit'' = map_of args2 ''limit''"
    using map_of_filter_other[of "''limit''" "''last_key''" args1]
          map_of_filter_other[of "''limit''" "''last_key''" args2] assms by simp
  then show ?thesis by (simp add: list_items_def limit_arg_def)
qed

theorem list_items_ignores_last_key_witness:
  "list_items quiet_env [(''limit'', ''5''), (''last_key'', ''item-41'')] [] =
   list_items quiet_env [(''last_key'', ''item-97''), (''limit'', ''5'')] []
   \<and> list_items quiet_env [(''limit'', ''5''), (''last_key'', ''item-41'')] [] =
     list_items quiet_env [(''limit'', ''5'')] []"
  using list_items_ignores_last_key
          [of "[(''limit'', ''5''), (''last_key'', ''item-41'')]"
              "[(''last_key'', ''item-97''), (''limit'', ''5'')]" quiet_env "[]"]
        list_items_ignores_last_key
          [of "[(''limit'', ''5''), (''last_key'', ''item-41'')]"
              "[(''limit'', ''5'')]" quiet_env "[]"]
  by simp

section \<open>The entry point: results\<close>

lemma stream_status:
  "process_dynamodb_stream env event log = (Inr r, log') \<Longrightarrow> statusCode r = 200"
  by (auto simp: process_dynamodb_stream_def Let_def split: sum.splits prod.splits)

lemma api_status:
  "process_api_gateway_request env event log = (Inr r, log')
     \<Longrightarrow> statusCode r \<in> {200, 404, 500}"
  by (auto simp: process_api_gateway_request_def Let_def split: sum.splits if_splits)

lemma scheduled_body_status:
  "scheduled_task_body env log = (Inr r, log') \<Longrightarrow> statusCode r = 200"
  by (auto simp: scheduled_task_body_def Let_def split: sum.splits prod.splits)

lemma scheduled_status:
  "process_scheduled_task env event log = (Inr r, log') \<Longrightarrow> statusCode r \<in> {200, 500}"
  by (auto simp: process_scheduled_task_def split: sum.splits prod.splits
           dest: scheduled_body_status)

lemma s3_status:
  "process_s3_event env event log = (Inr r, log') \<Longrightarrow> statusCode r = 200"
  by (auto simp: process_s3_event_def split: sum.splits prod.splits option.splits)

lemma dispatch_status:
  assumes "dispatch env event log = (Inr r, log')"
  shows "statusCode r \<in> {200, 400, 404, 500}"
proof (cases "determine_event_source event")
  case (Inl e)
  with assms show ?thesis by (simp add: dispatch_def)
next
  case (Inr src)
  with assms stream_status[of env event log r log'] api_status[of env event log r log']
    scheduled_status[of env event log r log'] s3_status[of env event log r log']
  show ?thesis by (auto simp: dispatch_def split: if_splits)
qed

lemma lambda_handler_of_dispatch:
  assumes "request_id context = Some rid"
    and "determine_event_source event = Inr tag"
  shows "lambda_handler env event context log =
           (case dispatch env event log of
              (Inl e, log') \<Rightarrow>
                (Inr \<lparr>statusCode = 500, headers = None,
                      body = PDict [(''error'', PStr ''Internal error'')]\<rparr>, log')
            | (Inr r, log') \<Rightarrow> (Inr r, log'))"
  using assms by (simp add: lambda_handler_def)

text \<open>
  C10. For every event the classifier accepts and every context with a \<open>request_id\<close>,
  in every environment: \<open>lambda_handler\<close> returns an envelope whose status is 200, 400,
  404 or 500 and raises nothing; whenever the body of its \<open>try\<close> (the classification
  and the handler it selects) raises an exception, the answer is the envelope with
  status 500 and the fixed body \<open>Internal error\<close>, with the calls made so far; and
  whenever that body returns an envelope, the answer is that envelope.
\<close>

theorem lambda_handler_always_answers:
  assumes "request_id context = Some rid"
    and "determine_event_source event = Inr tag"
  shows "(\<exists>r log'. lambda_handler env event context log = (Inr r, log')
            \<and> statusCode r \<in> {200, 400, 404, 500})
         \<and> (\<forall>e log'. dispatch env event log = (Inl e, log') \<longrightarrow>
               lambda_handler env event context log =
                 (Inr \<lparr>statusCode = 500, headers = None,
                       body = PDict [(''error'', PStr ''Internal error'')]\<rparr>, log'))
         \<and> (\<forall>r log'. dispatch env event log = (Inr r, log') \<longrightarrow>
               lambda_handler env event context log = (Inr r, log'))"
proof -
  note h = lambda_handler_of_dispatch[OF assms, of env log]
  obtain res log' where d: "dispatch env event log = (res, log')"
    by (cases "dispatch env event log")
  have answers: "\<exists>r log'. lambda_handler env event context log = (Inr r, log')
                   \<and> statusCode r \<in> {200, 400, 404, 500}"
  proof (cases res)
    case (Inl e)
    with d h show ?thesis by simp
  next
    case (Inr r)
    with d h dispatch_status[of env event log r log'] show ?thesis by simp
  qed
  have raised: "\<forall>e log'. dispatch env event log = (Inl e, log') \<longrightarrow>
                  lambda_handler env event context log =
                    (Inr \<lparr>statusCode = 500, headers = None,
                          body = PDict [(''error'', PStr ''Internal error'')]\<rparr>, log')"
    using h by simp
  have returned: "\<forall>r log'. dispatch env event log = (Inr r, log') \<longrightarrow>
                    lambda_handler env event context log = (Inr r, log')"
    using h by simp
  from answers raised returned show ?thesis by blast
qed

text \<open>The batch whose second record has no bucket: the handler raises \<open>KeyError\<close> after
  one write, and the entry point answers 500 with the fixed body.\<close>

theorem lambda_handler_always_answers_witness:
  "lambda_handler quiet_env s3_broken_batch demo_context [] =
     (Inr \<lparr>statusCode = 500, headers = None,
           body = PDict [(''error'', PStr ''Internal error'')]\<rparr>,
      [PutItem [(''id'', PStr ''s3-a-1.jpg''), (''timestamp'', PInt 1700000000000),
                (''type'', PStr ''file_upload''), (''bucket'', PStr ''uploads''),
                (''key'', PStr ''a/1.jpg''), (''uploaded_at'', PStr ''2023-11-14T22:13:20'')]])
   \<and> statusCode (projr (fst (lambda_handler quiet_env s3_broken_batch demo_context [])))
         \<in> {200, 400, 404, 500}"
proof -
  have c: "determine_event_source s3_broken_batch = Inr ''s3''"
    by (simp add: determine_event_source_def first_record_has_def s3_broken_batch_def
        s3_record_def)
  have r: "request_id demo_context = Some ''8f3c2a''"
    by (simp add: demo_context_def)
  have d: "dispatch quiet_env s3_broken_batch [] =
             (Inl (KeyError (repr_key ''bucket'')),
              [PutItem [(''id'', PStr ''s3-a-1.jpg''), (''timestamp'', PInt 1700000000000),
                        (''type'', PStr ''file_upload''), (''bucket'', PStr ''uploads''),
                        (''key'', PStr ''a/1.jpg''),
                        (''uploaded_at'', PStr ''2023-11-14T22:13:20'')]])"
    by (simp add: dispatch_def c)
       (simp add: process_s3_event_def s3_broken_batch_def s3_record_def s3_bucket_and_key_def
          s3_item_def quiet_env_def)
  from lambda_handler_always_answers[OF r c, of quiet_env "[]"] d
  show ?thesis by simp
qed

end
